theory Spec2Isabelle
  imports Complex_Main
begin

unbundle bit_operations_syntax

section \<open>Goals of the path search (lib/goals.js)\<close>

text \<open>
  JavaScript numbers are modelled as real numbers: every comparison, \<open>Math.abs\<close>,
  \<open>Math.min\<close>, \<open>Math.max\<close> and \<open>Math.floor\<close> is then exact. Rounding of products and
  sums, NaN and the infinities are outside the model. Negative zero matters at one place
  only, the bearing of a direction with no horizontal part, and is written out there.
\<close>

subsection \<open>Vectors (package vec3)\<close>

text \<open>
  A search node and a \<open>Vec3\<close> both carry the number fields \<open>x\<close>, \<open>y\<close>, \<open>z\<close>. The
  operations are the ones of the vec3 package that the goals call; the in-place ones
  (\<open>add\<close>, \<open>normalize\<close>) are only applied to fresh vectors, so their value is all that
  counts.
\<close>

datatype vec3 = Vec3 (x: real) (y: real) (z: real)

definition floored :: "vec3 \<Rightarrow> vec3" where
  "floored v = Vec3 (of_int \<lfloor>x v\<rfloor>) (of_int \<lfloor>y v\<rfloor>) (of_int \<lfloor>z v\<rfloor>)"

definition offset :: "vec3 \<Rightarrow> real \<Rightarrow> real \<Rightarrow> real \<Rightarrow> vec3" where
  "offset v dx dy dz = Vec3 (x v + dx) (y v + dy) (z v + dz)"

definition plus_v3 :: "vec3 \<Rightarrow> vec3 \<Rightarrow> vec3" where
  "plus_v3 v other = Vec3 (x v + x other) (y v + y other) (z v + z other)"

definition add_v3 :: "vec3 \<Rightarrow> vec3 \<Rightarrow> vec3" where
  "add_v3 v other = Vec3 (x v + x other) (y v + y other) (z v + z other)"

definition minus_v3 :: "vec3 \<Rightarrow> vec3 \<Rightarrow> vec3" where
  "minus_v3 v other = Vec3 (x v - x other) (y v - y other) (z v - z other)"

definition scaled :: "vec3 \<Rightarrow> real \<Rightarrow> vec3" where
  "scaled v s = Vec3 (x v * s) (y v * s) (z v * s)"

definition norm_v3 :: "vec3 \<Rightarrow> real" where
  "norm_v3 v = sqrt (x v * x v + y v * y v + z v * z v)"

definition normalize_v3 :: "vec3 \<Rightarrow> vec3" where
  "normalize_v3 v =
     (let n = norm_v3 v in if n \<noteq> 0 then Vec3 (x v / n) (y v / n) (z v / n) else v)"

definition equals :: "vec3 \<Rightarrow> vec3 \<Rightarrow> bool" where
  "equals v other \<longleftrightarrow>
     \<bar>x v - x other\<bar> \<le> 0 \<and> \<bar>y v - y other\<bar> \<le> 0 \<and> \<bar>z v - z other\<bar> \<le> 0"

subsection \<open>Numeric constants and helpers\<close>

definition Number_MAX_VALUE :: real where
  "Number_MAX_VALUE = 2 ^ 1024 - 2 ^ 971"

text \<open>\<open>Number.MIN_VALUE\<close> is the smallest positive double, not the most negative one.\<close>

definition Number_MIN_VALUE :: real where
  "Number_MIN_VALUE = 1 / 2 ^ 1074"

definition Math_SQRT2 :: real where
  "Math_SQRT2 = sqrt 2"

text \<open>
  \<open>Math.atan2(b, a)\<close> on reals: the angle of the point \<open>(a, b)\<close> in \<open>(-pi, pi]\<close>, and 0
  at the origin (the value for two positive zeros).
\<close>

definition Math_atan2 :: "real \<Rightarrow> real \<Rightarrow> real" where
  "Math_atan2 b a =
     (if a > 0 then arctan (b / a)
      else if a < 0 then (if b \<ge> 0 then arctan (b / a) + pi else arctan (b / a) - pi)
      else if b > 0 then pi / 2
      else if b < 0 then - pi / 2
      else 0)"

definition distanceXZ :: "real \<Rightarrow> real \<Rightarrow> real" where
  "distanceXZ dx0 dz0 =
     (let dx = \<bar>dx0\<bar>; dz = \<bar>dz0\<bar> in \<bar>dx - dz\<bar> + min dx dz * Math_SQRT2)"

text \<open>\<open>vectorToDirection\<close> falls off its last branch for the zero vector: \<open>None\<close> is
  JavaScript's \<open>undefined\<close>.\<close>

definition vectorToDirection :: "vec3 \<Rightarrow> int option" where
  "vectorToDirection v =
     (if y v < 0 then Some 0
      else if y v > 0 then Some 1
      else if z v < 0 then Some 2
      else if z v > 0 then Some 3
      else if x v < 0 then Some 4
      else if x v > 0 then Some 5
      else None)"

text \<open>\<open>Array.prototype.indexOf\<close>: the first index holding the value, or -1.\<close>

fun indexOf_from :: "int \<Rightarrow> 'a list \<Rightarrow> 'a \<Rightarrow> int" where
  "indexOf_from i [] v = - 1"
| "indexOf_from i (a # as) v = (if a = v then i else indexOf_from (i + 1) as v)"

definition indexOf :: "'a list \<Rightarrow> 'a \<Rightarrow> int" where
  "indexOf as v = indexOf_from 0 as v"

subsection \<open>The world, as the placement goal reads it\<close>

type_synonym shape = "real list"

record block =
  shapes :: "shape list"

record raycast_hit =
  position :: vec3
  face :: int

text \<open>
  \<open>getBlock\<close> answers \<open>None\<close> (JavaScript \<open>null\<close>) where no block is loaded, and
  \<open>raycast\<close> answers \<open>None\<close> when the ray hits nothing within the distance.
\<close>

record world =
  getBlock :: "vec3 \<Rightarrow> block option"
  raycast :: "vec3 \<Rightarrow> vec3 \<Rightarrow> real \<Rightarrow> raycast_hit option"

text \<open>
  The options object of the placement goal. The constructor rewrites it in place: a
  missing \<open>range\<close>, \<open>faces\<close> or \<open>LOS\<close> is filled in and the \<open>facing\<close> string is
  replaced by its index. The type parameters tell the two stages apart: the caller's
  object has optional fields and a string, the stored one has a number, a list, an index
  and a flag. A \<open>facing3D\<close> that is absent behaves as \<open>false\<close>.
\<close>

record ('r, 'fs, 'f, 'l) options =
  range_opt :: 'r
  faces :: 'fs
  facing :: 'f
  facing3D :: bool
  half :: "string option"
  LOS :: 'l

type_synonym given_options = "(real option, vec3 list option, string option, bool option) options"
type_synonym stored_options = "(real, vec3 list, int, bool) options"

record placeblock =
  pos :: vec3
  world :: world
  options :: stored_options
  facesPos :: "(vec3 \<times> vec3 \<times> vec3) list"

datatype error = TypeError

subsection \<open>The placement goal\<close>

text \<open>
  The loop of the constructor over the permitted faces. \<open>getShapeFaceCenters\<close> lives in
  lib/shapes.js and is a parameter here. Reading \<open>shapes\<close> of a block that is \<open>null\<close>
  throws.
\<close>

fun facesPos_loop ::
  "(shape list \<Rightarrow> vec3 \<Rightarrow> string option \<Rightarrow> vec3 list) \<Rightarrow> world \<Rightarrow> vec3 \<Rightarrow> string option \<Rightarrow>
   vec3 list \<Rightarrow> error + (vec3 \<times> vec3 \<times> vec3) list" where
  "facesPos_loop getShapeFaceCenters w p hf [] = Inr []"
| "facesPos_loop getShapeFaceCenters w p hf (dir # dirs) =
     (let ref = plus_v3 p dir in
      case getBlock w ref of
        None \<Rightarrow> Inl TypeError
      | Some refBlock \<Rightarrow>
          (case facesPos_loop getShapeFaceCenters w p hf dirs of
             Inl e \<Rightarrow> Inl e
           | Inr rest \<Rightarrow>
               Inr (map (\<lambda>center. (dir, add_v3 center ref, ref))
                      (getShapeFaceCenters (shapes refBlock) (scaled dir (- 1)) hf) @ rest)))"

definition default_faces :: "vec3 list" where
  "default_faces =
     [Vec3 0 (- 1) 0, Vec3 0 1 0, Vec3 0 0 (- 1), Vec3 0 0 1, Vec3 (- 1) 0 0, Vec3 1 0 0]"

definition facing_names :: "string list" where
  "facing_names = [''north'', ''east'', ''south'', ''west'', ''up'', ''down'']"

definition new_GoalPlaceBlock ::
  "(shape list \<Rightarrow> vec3 \<Rightarrow> string option \<Rightarrow> vec3 list) \<Rightarrow> vec3 \<Rightarrow> world \<Rightarrow> given_options \<Rightarrow>
   error + placeblock" where
  "new_GoalPlaceBlock getShapeFaceCenters pos_in w opts =
     (let p = floored pos_in;
          range1 = (case range_opt opts of None \<Rightarrow> 5 | Some r \<Rightarrow> if r = 0 then 5 else r);
          LOS1 = (case LOS opts of None \<Rightarrow> True | Some b \<Rightarrow> b);
          faces1 = (case faces opts of None \<Rightarrow> default_faces | Some fs \<Rightarrow> fs);
          facing1 = (case facing opts of None \<Rightarrow> - 1 | Some s \<Rightarrow> indexOf facing_names s)
      in case facesPos_loop getShapeFaceCenters w p (half opts) faces1 of
           Inl e \<Rightarrow> Inl e
         | Inr fp \<Rightarrow>
             Inr \<lparr>pos = p, world = w,
                  options = \<lparr>range_opt = range1, faces = faces1, facing = facing1,
                             facing3D = facing3D opts, half = half opts, LOS = LOS1\<rparr>,
                  facesPos = fp\<rparr>)"

definition heuristic_place :: "placeblock \<Rightarrow> vec3 \<Rightarrow> real" where
  "heuristic_place g node =
     (let dx = x node - x (pos g); dy = y node - y (pos g); dz = z node - z (pos g)
      in distanceXZ dx dz + \<bar>if dy < 0 then dy + 1 else dy\<bar>)"

definition isStandingIn :: "placeblock \<Rightarrow> vec3 \<Rightarrow> bool" where
  "isStandingIn g node =
     (let dx = x node - x (pos g); dy = y node - y (pos g); dz = z node - z (pos g)
      in \<bar>dx\<bar> + \<bar>if dy < 0 then dy + 1 else dy\<bar> + \<bar>dz\<bar> < 1)"

text \<open>
  \<open>checkFacing\<close>. The vertical test may decide (\<open>Some\<close>) or fall through (\<open>None\<close>) to the
  horizontal one. There \<open>-dir.z\<close> is negative zero when \<open>dir.z\<close> is zero, and
  \<open>Math.atan2(0, -0)\<close> is pi; everywhere else the second argument's zero sign has no
  effect. \<open>& 0x3\<close> is the bitwise and on the floored number.
\<close>

definition checkFacing :: "placeblock \<Rightarrow> vec3 \<Rightarrow> bool" where
  "checkFacing g dir =
     (if facing (options g) < 0 then True
      else
        (case (if facing3D (options g) then
                 (let dH = sqrt (x dir * x dir + z dir * z dir);
                      vAngle = Math_atan2 (y dir) dH * 180 / pi
                  in if vAngle > 45 then Some (facing (options g) = 4)
                     else if vAngle < - 45 then Some (facing (options g) = 5)
                     else None)
               else None) of
           Some b \<Rightarrow> b
         | None \<Rightarrow>
            (let angle = (if x dir = 0 \<and> z dir = 0 then pi else Math_atan2 (x dir) (- z dir))
                           * 180 / pi + 180;
                 facing1 = \<lfloor>angle / 90 + 0.5\<rfloor> AND 3
             in if facing (options g) = facing1 then True else False)))"

text \<open>
  \<open>getFaceAndRef\<close>: the first candidate, in construction order, that is in range, passes
  the facing test and, when line of sight is asked for, is what the ray hits.
\<close>

fun getFaceAndRef_loop ::
  "placeblock \<Rightarrow> vec3 \<Rightarrow> (vec3 \<times> vec3 \<times> vec3) list \<Rightarrow> (vec3 \<times> vec3 \<times> vec3) option" where
  "getFaceAndRef_loop g headPos [] = None"
| "getFaceAndRef_loop g headPos ((fc, to, ref) # rest) =
     (let dir = minus_v3 to headPos in
      if norm_v3 dir > range_opt (options g) then getFaceAndRef_loop g headPos rest
      else if \<not> checkFacing g dir then getFaceAndRef_loop g headPos rest
      else if \<not> LOS (options g) then Some (fc, to, ref)
      else
        (case raycast (world g) headPos (normalize_v3 dir) (range_opt (options g)) of
           Some blk \<Rightarrow>
             if equals (position blk) ref \<and> Some (face blk) = vectorToDirection (scaled fc (- 1))
             then Some (fc, to, ref)
             else getFaceAndRef_loop g headPos rest
         | None \<Rightarrow> getFaceAndRef_loop g headPos rest))"

definition getFaceAndRef :: "placeblock \<Rightarrow> vec3 \<Rightarrow> (vec3 \<times> vec3 \<times> vec3) option" where
  "getFaceAndRef g headPos = getFaceAndRef_loop g headPos (facesPos g)"

definition isEnd_place :: "placeblock \<Rightarrow> vec3 \<Rightarrow> bool" where
  "isEnd_place g node =
     (if isStandingIn g node then False
      else (let headPos = offset node 0.5 1.6 0.5 in getFaceAndRef g headPos \<noteq> None))"

subsection \<open>The goal classes\<close>

text \<open>
  One constructor per class, carrying the fields the class stores. \<open>Goal\<close> is the base
  class. A follow goal holds a reference to its entity: the entity is a key into the
  table of current entity positions, which belongs to the world and not to the goal.
\<close>

datatype goal =
    Goal
  | GoalBlock real real real
  | GoalNear real real real real
  | GoalXZ real real
  | GoalY real
  | GoalGetToBlock real real real
  | GoalCompositeAny "goal list"
  | GoalCompositeAll "goal list"
  | GoalInvert goal
  | GoalFollow nat real real real real
  | GoalPlaceBlock placeblock

type_synonym entities = "nat \<Rightarrow> vec3"

definition new_GoalBlock :: "real \<Rightarrow> real \<Rightarrow> real \<Rightarrow> goal" where
  "new_GoalBlock a b c = GoalBlock (of_int \<lfloor>a\<rfloor>) (of_int \<lfloor>b\<rfloor>) (of_int \<lfloor>c\<rfloor>)"

definition new_GoalNear :: "real \<Rightarrow> real \<Rightarrow> real \<Rightarrow> real \<Rightarrow> goal" where
  "new_GoalNear a b c rng = GoalNear (of_int \<lfloor>a\<rfloor>) (of_int \<lfloor>b\<rfloor>) (of_int \<lfloor>c\<rfloor>) (rng * rng)"

definition new_GoalXZ :: "real \<Rightarrow> real \<Rightarrow> goal" where
  "new_GoalXZ a c = GoalXZ (of_int \<lfloor>a\<rfloor>) (of_int \<lfloor>c\<rfloor>)"

definition new_GoalY :: "real \<Rightarrow> goal" where
  "new_GoalY b = GoalY (of_int \<lfloor>b\<rfloor>)"

definition new_GoalGetToBlock :: "real \<Rightarrow> real \<Rightarrow> real \<Rightarrow> goal" where
  "new_GoalGetToBlock a b c = GoalGetToBlock (of_int \<lfloor>a\<rfloor>) (of_int \<lfloor>b\<rfloor>) (of_int \<lfloor>c\<rfloor>)"

definition new_GoalFollow :: "entities \<Rightarrow> nat \<Rightarrow> real \<Rightarrow> goal" where
  "new_GoalFollow ents entity rng =
     GoalFollow entity (of_int \<lfloor>x (ents entity)\<rfloor>) (of_int \<lfloor>y (ents entity)\<rfloor>)
       (of_int \<lfloor>z (ents entity)\<rfloor>) (rng * rng)"

fun heuristic :: "goal \<Rightarrow> vec3 \<Rightarrow> real" where
  "heuristic Goal node = 0"
| "heuristic (GoalBlock tx ty tz) node =
     (let dx = tx - x node; dy = ty - y node; dz = tz - z node
      in distanceXZ dx dz + \<bar>dy\<bar>)"
| "heuristic (GoalNear tx ty tz rangeSq) node =
     (let dx = tx - x node; dy = ty - y node; dz = tz - z node
      in distanceXZ dx dz + \<bar>dy\<bar>)"
| "heuristic (GoalXZ tx tz) node =
     (let dx = tx - x node; dz = tz - z node in distanceXZ dx dz)"
| "heuristic (GoalY ty) node = (let dy = ty - y node in \<bar>dy\<bar>)"
| "heuristic (GoalGetToBlock tx ty tz) node =
     (let dx = x node - tx; dy = y node - ty; dz = z node - tz
      in distanceXZ dx dz + \<bar>if dy < 0 then dy + 1 else dy\<bar>)"
| "heuristic (GoalCompositeAny goals) node =
     fold (\<lambda>g m. min m (heuristic g node)) goals Number_MAX_VALUE"
| "heuristic (GoalCompositeAll goals) node =
     fold (\<lambda>g m. max m (heuristic g node)) goals Number_MIN_VALUE"
| "heuristic (GoalInvert g) node = - heuristic g node"
| "heuristic (GoalFollow entity tx ty tz rangeSq) node =
     (let dx = tx - x node; dy = ty - y node; dz = tz - z node
      in distanceXZ dx dz + \<bar>dy\<bar>)"
| "heuristic (GoalPlaceBlock pb) node = heuristic_place pb node"

fun isEnd :: "goal \<Rightarrow> vec3 \<Rightarrow> bool" where
  "isEnd Goal node = True"
| "isEnd (GoalBlock tx ty tz) node = (x node = tx \<and> y node = ty \<and> z node = tz)"
| "isEnd (GoalNear tx ty tz rangeSq) node =
     (let dx = tx - x node; dy = ty - y node; dz = tz - z node
      in dx * dx + dy * dy + dz * dz \<le> rangeSq)"
| "isEnd (GoalXZ tx tz) node = (x node = tx \<and> z node = tz)"
| "isEnd (GoalY ty) node = (y node = ty)"
| "isEnd (GoalGetToBlock tx ty tz) node =
     (let dx = x node - tx; dy = y node - ty; dz = z node - tz
      in \<bar>dx\<bar> + \<bar>if dy < 0 then dy + 1 else dy\<bar> + \<bar>dz\<bar> = 1)"
| "isEnd (GoalCompositeAny goals) node = list_ex (\<lambda>g. isEnd g node) goals"
| "isEnd (GoalCompositeAll goals) node = list_all (\<lambda>g. isEnd g node) goals"
| "isEnd (GoalInvert g) node = (\<not> isEnd g node)"
| "isEnd (GoalFollow entity tx ty tz rangeSq) node =
     (let dx = tx - x node; dy = ty - y node; dz = tz - z node
      in dx * dx + dy * dy + dz * dz \<le> rangeSq)"
| "isEnd (GoalPlaceBlock pb) node = isEnd_place pb node"

text \<open>
  \<open>hasChanged\<close> is the one method that assigns to fields of a goal, so it returns the
  goal as it is after the call beside the answer. The loops of the composites stop at the
  first child that answers true: the children after it are not asked and keep their state.
\<close>

fun hasChanged :: "entities \<Rightarrow> goal \<Rightarrow> bool \<times> goal"
  and hasChanged_loop :: "entities \<Rightarrow> goal list \<Rightarrow> bool \<times> goal list" where
  "hasChanged ents (GoalCompositeAny goals) =
     (let (b, goals1) = hasChanged_loop ents goals in (b, GoalCompositeAny goals1))"
| "hasChanged ents (GoalCompositeAll goals) =
     (let (b, goals1) = hasChanged_loop ents goals in (b, GoalCompositeAll goals1))"
| "hasChanged ents (GoalInvert g) =
     (let (b, g1) = hasChanged ents g in (b, GoalInvert g1))"
| "hasChanged ents (GoalFollow entity tx ty tz rangeSq) =
     (let p = floored (ents entity);
          dx = tx - x p; dy = ty - y p; dz = tz - z p
      in if dx * dx + dy * dy + dz * dz > rangeSq
         then (True, GoalFollow entity (x p) (y p) (z p) rangeSq)
         else (False, GoalFollow entity tx ty tz rangeSq))"
| "hasChanged ents g = (False, g)"
| "hasChanged_loop ents [] = (False, [])"
| "hasChanged_loop ents (g # goals) =
     (let (b, g1) = hasChanged ents g in
      if b then (True, g1 # goals)
      else (let (b1, goals1) = hasChanged_loop ents goals in (b1, g1 # goals1)))"

text \<open>
  What the search engine can do with a goal: ask for the heuristic or the end test at a
  node, or ask whether the goal has changed. \<open>call\<close> gives the answer and the goal after
  the call, \<open>calls\<close> runs a sequence of them.
\<close>

datatype request = Heuristic vec3 | IsEnd vec3 | HasChanged

datatype answer = Num real | Bool bool

fun call :: "entities \<Rightarrow> goal \<Rightarrow> request \<Rightarrow> answer \<times> goal" where
  "call ents g (Heuristic node) = (Num (heuristic g node), g)"
| "call ents g (IsEnd node) = (Bool (isEnd g node), g)"
| "call ents g HasChanged = (let (b, g1) = hasChanged ents g in (Bool b, g1))"

fun calls :: "entities \<Rightarrow> goal \<Rightarrow> request list \<Rightarrow> answer list \<times> goal" where
  "calls ents g [] = ([], g)"
| "calls ents g (r # rs) =
     (let (a, g1) = call ents g r; (as, g2) = calls ents g1 rs in (a # as, g2))"

fun positional :: "goal \<Rightarrow> bool" where
  "positional (GoalBlock tx ty tz) = True"
| "positional (GoalNear tx ty tz rangeSq) = True"
| "positional (GoalXZ tx tz) = True"
| "positional (GoalY ty) = True"
| "positional (GoalGetToBlock tx ty tz) = True"
| "positional g = False"

section \<open>Properties\<close>

subsection \<open>Helper facts\<close>

lemma Number_MIN_VALUE_pos: "0 < Number_MIN_VALUE"
  by (simp add: Number_MIN_VALUE_def)

lemma fold_max_Max:
  "fold (\<lambda>g m. max m (f g)) gs (m0::real) = Max (insert m0 (f ` set gs))"
proof (induction gs arbitrary: m0)
  case Nil
  then show ?case by simp
next
  case (Cons g gs)
  have "Max (insert (max m0 (f g)) (f ` set gs)) = Max (insert m0 (insert (f g) (f ` set gs)))"
  proof (cases "set gs = {}")
    case True
    then show ?thesis by (simp add: max.commute)
  next
    case False
    then have ne: "f ` set gs \<noteq> {}" by simp
    have fin: "finite (f ` set gs)" by simp
    show ?thesis
      by (simp add: Max_insert[OF fin ne] Max_insert[of "insert (f g) (f ` set gs)"] max.assoc)
  qed
  with Cons show ?case by simp
qed

text \<open>
  What the loop of \<open>GoalCompositeAll.heuristic\<close> computes: the maximum of the children's
  values and of its start value \<open>Number.MIN_VALUE\<close>, so never less than that positive
  number.
\<close>

lemma GoalCompositeAll_heuristic_Max:
  "heuristic (GoalCompositeAll goals) node =
     Max (insert Number_MIN_VALUE ((\<lambda>g. heuristic g node) ` set goals))"
  by (simp add: fold_max_Max)

lemma GoalCompositeAll_heuristic_ge:
  "Number_MIN_VALUE \<le> heuristic (GoalCompositeAll goals) node"
  unfolding GoalCompositeAll_heuristic_Max by (rule Max_ge) simp_all

lemma abs_one_int: "\<bar>a\<bar> = (1::int) \<Longrightarrow> a = 1 \<or> a = - 1"
  by arith

lemma adjusted_zero: "(if b < 0 then b + 1 else b) = (0::int) \<Longrightarrow> b = 0 \<or> b = - 1"
  by (cases "b < 0") simp_all

lemma adjusted_one: "\<bar>if b < 0 then b + 1 else b\<bar> = (1::int) \<Longrightarrow> b = 1 \<or> b = - 2"
proof (cases "b < 0")
  case True
  assume "\<bar>if b < 0 then b + 1 else b\<bar> = 1"
  with True have "\<bar>b + 1\<bar> = 1" by simp
  with True show ?thesis by arith
next
  case False
  assume "\<bar>if b < 0 then b + 1 else b\<bar> = 1"
  with False have "\<bar>b\<bar> = 1" by simp
  with False show ?thesis by arith
qed

lemma abs_sum_one:
  "\<bar>a\<bar> + \<bar>d\<bar> + \<bar>c\<bar> = (1::int) \<Longrightarrow>
     (\<bar>a\<bar> = 1 \<and> d = 0 \<and> c = 0) \<or> (a = 0 \<and> \<bar>d\<bar> = 1 \<and> c = 0) \<or>
     (a = 0 \<and> d = 0 \<and> \<bar>c\<bar> = 1)"
  by arith

text \<open>The integer solutions of "adjusted Manhattan distance is 1".\<close>

lemma adjusted_manhattan_one:
  "(\<bar>a\<bar> + \<bar>if b < 0 then b + 1 else b\<bar> + \<bar>c\<bar> = (1::int)) \<longleftrightarrow>
    (a, b, c) \<in> {(1, 0, 0), (- 1, 0, 0), (1, - 1, 0), (- 1, - 1, 0),
                 (0, 0, 1), (0, 0, - 1), (0, - 1, 1), (0, - 1, - 1),
                 (0, 1, 0), (0, - 2, 0)}" (is "?L \<longleftrightarrow> ?R")
proof
  assume h: ?L
  from abs_sum_one[OF h] show ?R
  proof (elim disjE conjE)
    assume "\<bar>a\<bar> = 1" "(if b < 0 then b + 1 else b) = 0" "c = 0"
    with abs_one_int[of a] adjusted_zero[of b] show ?R by auto
  next
    assume "a = 0" "\<bar>if b < 0 then b + 1 else b\<bar> = 1" "c = 0"
    with adjusted_one[of b] show ?R by auto
  next
    assume "a = 0" "(if b < 0 then b + 1 else b) = 0" "\<bar>c\<bar> = 1"
    with abs_one_int[of c] adjusted_zero[of b] show ?R by auto
  qed
next
  assume ?R
  then show ?L by (elim insertE emptyE) simp_all
qed

lemma hasChanged_positional: "positional g \<Longrightarrow> hasChanged ents g = (False, g)"
  by (cases g) simp_all

lemma call_positional: "positional g \<Longrightarrow> snd (call ents g r) = g"
  by (cases r) (simp_all add: hasChanged_positional)

lemma equals_iff: "equals v w \<longleftrightarrow> v = w"
  by (cases v; cases w) (auto simp: equals_def)

lemma facesPos_loop_ok:
  "(\<forall>d \<in> set dirs. getBlock w (plus_v3 p d) \<noteq> None) \<Longrightarrow>
     \<exists>fp. facesPos_loop gsfc w p hf dirs = Inr fp"
  by (induction dirs) (auto simp: Let_def split: option.splits sum.splits)

lemma indexOf_from_absent: "v \<notin> set as \<Longrightarrow> indexOf_from i as v = - 1"
  by (induction as arbitrary: i) auto

text \<open>One round of the loop of \<open>getFaceAndRef\<close>: the candidate is returned or passed over.\<close>

lemma getFaceAndRef_loop_step:
  "getFaceAndRef_loop g headPos ((fc, to, ref) # rest) =
     (if \<not> norm_v3 (minus_v3 to headPos) > range_opt (options g) \<and>
         checkFacing g (minus_v3 to headPos) \<and>
         (LOS (options g) \<longrightarrow>
            (\<exists>blk. raycast (world g) headPos (normalize_v3 (minus_v3 to headPos))
                     (range_opt (options g)) = Some blk \<and>
                   position blk = ref \<and>
                   Some (face blk) = vectorToDirection (scaled fc (- 1))))
      then Some (fc, to, ref)
      else getFaceAndRef_loop g headPos rest)"
proof (cases "raycast (world g) headPos (normalize_v3 (minus_v3 to headPos))
                (range_opt (options g))")
  case None
  then show ?thesis by (simp add: Let_def)
next
  case (Some blk)
  then show ?thesis by (simp add: Let_def equals_iff)
qed

lemma getFaceAndRef_loop_Some:
  "getFaceAndRef_loop g headPos cs = Some (fc, to, ref) \<Longrightarrow>
     (fc, to, ref) \<in> set cs \<and>
     \<not> norm_v3 (minus_v3 to headPos) > range_opt (options g) \<and>
     checkFacing g (minus_v3 to headPos) \<and>
     (LOS (options g) \<longrightarrow>
        (\<exists>blk. raycast (world g) headPos (normalize_v3 (minus_v3 to headPos))
                 (range_opt (options g)) = Some blk \<and>
               position blk = ref \<and>
               Some (face blk) = vectorToDirection (scaled fc (- 1))))"
proof (induction cs)
  case Nil
  then show ?case by simp
next
  case (Cons c rest)
  obtain fc' to' ref' where c: "c = (fc', to', ref')" by (cases c) auto
  show ?case
  proof (cases "getFaceAndRef_loop g headPos (c # rest) = getFaceAndRef_loop g headPos rest")
    case True
    with Cons.prems have "getFaceAndRef_loop g headPos rest = Some (fc, to, ref)" by simp
    from Cons.IH[OF this] show ?thesis by simp
  next
    case False
    then have acc: "\<not> norm_v3 (minus_v3 to' headPos) > range_opt (options g) \<and>
         checkFacing g (minus_v3 to' headPos) \<and>
         (LOS (options g) \<longrightarrow>
            (\<exists>blk. raycast (world g) headPos (normalize_v3 (minus_v3 to' headPos))
                     (range_opt (options g)) = Some blk \<and>
                   position blk = ref' \<and>
                   Some (face blk) = vectorToDirection (scaled fc' (- 1))))"
      unfolding c getFaceAndRef_loop_step by (simp only: split: if_splits) simp_all
    have "getFaceAndRef_loop g headPos (c # rest) = Some (fc', to', ref')"
      unfolding c by (subst getFaceAndRef_loop_step) (rule if_P[OF acc])
    with Cons.prems have "fc' = fc" "to' = to" "ref' = ref" by simp_all
    with acc c show ?thesis by simp
  qed
qed

text \<open>The bucket of \<open>checkFacing\<close> in radians, and the two cones it decides for index 0.\<close>

lemma bucket_of_angle:
  "\<lfloor>(t * 180 / pi + 180) / 90 + 0.5\<rfloor> = \<lfloor>2 * t / pi + 5 / 2\<rfloor>" for t :: real
proof -
  have "(t * 180 / pi + 180) / 90 + 0.5 = 2 * t / pi + 5 / 2"
    by (simp add: field_simps)
  then show ?thesis by simp
qed

lemma arctan_quarter:
  assumes "\<bar>r\<bar> < 1"
  shows "- (pi / 4) < arctan r" and "arctan r < pi / 4"
proof -
  from assms have "r < 1" "- 1 < r" by simp_all
  then have "arctan r < arctan 1" "arctan (- 1) < arctan r"
    by (simp_all only: arctan_less_iff)
  then show "- (pi / 4) < arctan r" and "arctan r < pi / 4"
    by (simp_all add: arctan_one arctan_minus)
qed

lemma scaled_quarter:
  assumes "- (pi / 4) < t" "t < pi / 4"
  shows "- (1 / 2) < 2 * t / pi" and "2 * t / pi < 1 / 2"
proof -
  have p: "0 < pi" by simp
  from assms(1) p show "- (1 / 2) < 2 * t / pi"
    by (simp add: field_simps)
  from assms(2) p show "2 * t / pi < 1 / 2"
    by (simp add: field_simps)
qed

lemma checkFacing_horizontal:
  assumes "0 \<le> facing (options g)" "\<not> facing3D (options g)" "z dir \<noteq> 0"
  shows "checkFacing g dir \<longleftrightarrow>
           facing (options g) = \<lfloor>2 * Math_atan2 (x dir) (- z dir) / pi + 5 / 2\<rfloor> AND 3"
  using assms unfolding checkFacing_def Let_def bucket_of_angle by simp

text \<open>
  With the index of \<open>north\<close> and the 2D test, every direction within 45 degrees of the
  negative z axis is refused, and every direction within 45 degrees of the positive z axis
  is accepted.
\<close>

lemma checkFacing_north_cone:
  assumes f: "facing (options g) = 0" and n3: "\<not> facing3D (options g)"
    and zn: "z dir < 0" and cone: "\<bar>x dir\<bar> < - z dir"
  shows "\<not> checkFacing g dir"
proof -
  define a where "a = - z dir"
  define t where "t = arctan (x dir / a)"
  have ap: "0 < a" using zn by (simp add: a_def)
  have lt: "\<bar>x dir\<bar> / a < 1" using ap cone by (simp add: a_def[symmetric])
  have "\<bar>x dir / a\<bar> = \<bar>x dir\<bar> / \<bar>a\<bar>" by (rule abs_divide)
  also have "\<dots> = \<bar>x dir\<bar> / a" using ap by (simp only: abs_of_pos)
  finally have "\<bar>x dir / a\<bar> < 1" using lt by (simp only:)
  from arctan_quarter[OF this] have q: "- (pi / 4) < t" "t < pi / 4"
    by (simp_all only: t_def)
  from scaled_quarter[OF q] have "2 \<le> 2 * t / pi + 5 / 2" "2 * t / pi + 5 / 2 < 3"
    by linarith+
  then have fl: "\<lfloor>2 * t / pi + 5 / 2\<rfloor> = 2" by linarith
  have at: "Math_atan2 (x dir) (- z dir) = t"
    using ap unfolding Math_atan2_def t_def a_def[symmetric] by simp
  have "checkFacing g dir \<longleftrightarrow> facing (options g) = \<lfloor>2 * t / pi + 5 / 2\<rfloor> AND 3"
    using checkFacing_horizontal[of g dir] f n3 zn by (simp only: at) simp
  with f fl show ?thesis by simp
qed

lemma checkFacing_south_cone:
  assumes f: "facing (options g) = 0" and n3: "\<not> facing3D (options g)"
    and zp: "0 < z dir" and cone: "\<bar>x dir\<bar> < z dir"
  shows "checkFacing g dir"
proof -
  define a where "a = - z dir"
  define t where "t = arctan (x dir / a)"
  have an: "a < 0" using zp by (simp add: a_def)
  have lt: "\<bar>x dir\<bar> / (- a) < 1" using zp cone by (simp add: a_def)
  have "\<bar>x dir / a\<bar> = \<bar>x dir\<bar> / \<bar>a\<bar>" by (rule abs_divide)
  also have "\<dots> = \<bar>x dir\<bar> / (- a)" using an by (simp only: abs_of_neg)
  finally have "\<bar>x dir / a\<bar> < 1" using lt by (simp only:)
  from arctan_quarter[OF this] have q: "- (pi / 4) < t" "t < pi / 4"
    by (simp_all only: t_def)
  note s = scaled_quarter[OF q]
  have shift: "2 * (t + pi) / pi = 2 * t / pi + 2" "2 * (t - pi) / pi = 2 * t / pi - 2"
    by (simp_all add: field_simps)
  have eq: "checkFacing g dir \<longleftrightarrow>
      0 = \<lfloor>2 * Math_atan2 (x dir) (- z dir) / pi + 5 / 2\<rfloor> AND 3"
    using checkFacing_horizontal[of g dir] f n3 zp by simp
  show ?thesis
  proof (cases "0 \<le> x dir")
    case True
    with an have "x dir / a \<le> 0" by (simp add: divide_nonneg_neg)
    then have "t \<le> 0" by (simp add: t_def arctan_le_zero_iff)
    then have "2 * t / pi \<le> 0" by (simp add: divide_nonpos_pos)
    with s have "4 \<le> 2 * t / pi + 2 + 5 / 2" "2 * t / pi + 2 + 5 / 2 < 5" by linarith+
    then have fl: "\<lfloor>2 * t / pi + 2 + 5 / 2\<rfloor> = 4" by linarith
    have at: "Math_atan2 (x dir) (- z dir) = t + pi"
      using an True unfolding Math_atan2_def t_def a_def[symmetric] by simp
    have "(4::int) AND 3 = 0" by simp
    with fl show ?thesis unfolding eq at shift by (simp only:)
  next
    case False
    with an have "0 < x dir / a" by (simp add: divide_neg_neg)
    then have "0 < t" by (simp add: t_def zero_less_arctan_iff)
    then have "0 < 2 * t / pi" by simp
    with s have "0 \<le> 2 * t / pi - 2 + 5 / 2" "2 * t / pi - 2 + 5 / 2 < 1" by linarith+
    then have fl: "\<lfloor>2 * t / pi - 2 + 5 / 2\<rfloor> = 0" by linarith
    have at: "Math_atan2 (x dir) (- z dir) = t - pi"
      using an False unfolding Math_atan2_def t_def a_def[symmetric] by simp
    have "(0::int) AND 3 = 0" by simp
    with fl show ?thesis unfolding eq at shift by (simp only:)
  qed
qed

subsection \<open>Composite goals\<close>

text \<open>
  C1. The heuristic of an all-of composite is claimed to be the maximum of its children's
  heuristics, also when they are negative. Evaluated on the composite whose one child is
  the inversion of the exact-block goal at the origin, at the node \<open>(1, 0, 0)\<close>: the
  child answers \<open>-1\<close>, the composite answers \<open>Number.MIN_VALUE\<close>, the start value of its
  loop, which is positive.
\<close>

theorem GoalCompositeAll_heuristic_negative_child:
  "heuristic (GoalInvert (new_GoalBlock 0 0 0)) (Vec3 1 0 0) = - 1 \<and>
   heuristic (GoalCompositeAll [GoalInvert (new_GoalBlock 0 0 0)]) (Vec3 1 0 0)
     = Number_MIN_VALUE \<and>
   Number_MIN_VALUE \<noteq> - 1"
  using Number_MIN_VALUE_pos by (simp add: new_GoalBlock_def distanceXZ_def)

text \<open>
  C10. With no children, the all-of composite is at its end at every node and the any-of
  composite at none.
\<close>

theorem composite_empty_isEnd:
  "isEnd (GoalCompositeAll []) node = True \<and> isEnd (GoalCompositeAny []) node = False"
  by simp

subsection \<open>Positional goals\<close>

text \<open>
  C3, as claimed, fails: for the adjacent goal at the origin the node \<open>(1, -1, 0)\<close>, which
  shares no face with the target, is an end, and the node \<open>(0, -1, 0)\<close>, which shares the
  target's lower face, is not.
\<close>

theorem GoalGetToBlock_isEnd_not_six_faces:
  "isEnd (new_GoalGetToBlock 0 0 0) (Vec3 1 (- 1) 0) \<and>
   \<not> isEnd (new_GoalGetToBlock 0 0 0) (Vec3 0 (- 1) 0)"
  by (simp add: new_GoalGetToBlock_def)

text \<open>
  C3, amended. For the adjacent goal at the origin, the integer nodes that are an end are
  exactly the ten whose adjusted Manhattan distance is 1: the four horizontal neighbours
  at height 0 and at height -1, the cell above at height 1 and the cell at height -2.
  The target itself and the cell right below it are not among them.
\<close>

theorem GoalGetToBlock_isEnd_ten_nodes:
  "isEnd (new_GoalGetToBlock 0 0 0) (Vec3 (of_int a) (of_int b) (of_int c)) \<longleftrightarrow>
    (a, b, c) \<in> {(1, 0, 0), (- 1, 0, 0), (1, - 1, 0), (- 1, - 1, 0),
                 (0, 0, 1), (0, 0, - 1), (0, - 1, 1), (0, - 1, - 1),
                 (0, 1, 0), (0, - 2, 0)}"
proof -
  have "\<bar>real_of_int a\<bar> + \<bar>if real_of_int b < 0 then real_of_int b + 1 else real_of_int b\<bar>
          + \<bar>real_of_int c\<bar>
        = real_of_int (\<bar>a\<bar> + \<bar>if b < 0 then b + 1 else b\<bar> + \<bar>c\<bar>)"
    by simp
  then have "isEnd (new_GoalGetToBlock 0 0 0) (Vec3 (of_int a) (of_int b) (of_int c)) \<longleftrightarrow>
      \<bar>a\<bar> + \<bar>if b < 0 then b + 1 else b\<bar> + \<bar>c\<bar> = 1"
    by (simp only: new_GoalGetToBlock_def isEnd.simps Let_def vec3.sel floor_zero of_int_0
          diff_zero of_int_eq_1_iff)
  then show ?thesis by (simp only: adjusted_manhattan_one)
qed

text \<open>
  C7. The within-radius goal is at its end exactly when the squared distance from the
  node to the floored centre is at most the squared range. With range 3, a node at squared
  distance exactly 9 is an end and a node farther than 3 is not.
\<close>

theorem GoalNear_isEnd_inclusive:
  "let dsq = (of_int \<lfloor>cx\<rfloor> - x node)\<^sup>2 + (of_int \<lfloor>cy\<rfloor> - y node)\<^sup>2
               + (of_int \<lfloor>cz\<rfloor> - z node)\<^sup>2 in
    (isEnd (new_GoalNear cx cy cz rng) node \<longleftrightarrow> dsq \<le> rng\<^sup>2) \<and>
    (dsq = 9 \<longrightarrow> isEnd (new_GoalNear cx cy cz 3) node) \<and>
    (sqrt dsq > 3 \<longrightarrow> \<not> isEnd (new_GoalNear cx cy cz 3) node)"
proof -
  have nine: "sqrt 9 = (3::real)"
    using real_sqrt_abs[of 3] by simp
  have "sqrt d > 3 \<Longrightarrow> \<not> d \<le> 9" for d :: real
  proof
    assume gt: "3 < sqrt d" and le: "d \<le> 9"
    from le have "sqrt d \<le> sqrt 9" by (rule real_sqrt_le_mono)
    with nine gt show False by linarith
  qed
  then show ?thesis
    by (auto simp: Let_def new_GoalNear_def power2_eq_square)
qed

theorem GoalNear_isEnd_inclusive_witness:
  "isEnd (new_GoalNear 0.5 0.2 0.9 3) (Vec3 3 0 0) \<and>
   \<not> isEnd (new_GoalNear 0.5 0.2 0.9 3) (Vec3 3 1 0)"
proof -
  have "(3::real) < sqrt 10" by (rule real_less_rsqrt) simp
  then show ?thesis
    using GoalNear_isEnd_inclusive
            [where cx = "0.5" and cy = "0.2" and cz = "0.9" and node = "Vec3 3 0 0" and rng = 3]
          GoalNear_isEnd_inclusive
            [where cx = "0.5" and cy = "0.2" and cz = "0.9" and node = "Vec3 3 1 0" and rng = 3]
    by (simp add: Let_def)
qed

text \<open>
  C8. A positional goal (exact block, within radius, column, altitude, adjacent) answers
  false to \<open>hasChanged\<close> and is left as it was by it; after any sequence of calls the goal
  is unchanged, and every answer in the sequence is the answer the untouched goal gives
  to that call, so asking again at the same node gives the same result.
\<close>

theorem positional_goals_stateless:
  "positional g \<Longrightarrow>
     hasChanged ents g = (False, g) \<and>
     snd (calls ents g rs) = g \<and>
     fst (calls ents g rs) = map (\<lambda>r. fst (call ents g r)) rs"
proof (induction rs)
  case Nil
  then show ?case by (simp add: hasChanged_positional)
next
  case (Cons r rs)
  from Cons.prems have "snd (call ents g r) = g" by (rule call_positional)
  with Cons show ?case by (simp add: split_beta Let_def)
qed

theorem positional_goals_stateless_witness:
  "positional (new_GoalNear 1 2 3 4) \<and>
   calls (\<lambda>e. Vec3 9 9 9) (new_GoalNear 1 2 3 4)
       [IsEnd (Vec3 1 2 3), HasChanged, IsEnd (Vec3 1 2 3)] =
     ([Bool True, Bool False, Bool True], new_GoalNear 1 2 3 4)"
  using positional_goals_stateless
          [of "new_GoalNear 1 2 3 4" "\<lambda>e. Vec3 9 9 9"
              "[IsEnd (Vec3 1 2 3), HasChanged, IsEnd (Vec3 1 2 3)]"]
  by (simp add: new_GoalNear_def)

subsection \<open>The follow goal\<close>

text \<open>
  C5. \<open>hasChanged\<close> of a follow goal floors the entity's current position and takes the
  squared distance from the captured target to it. If that exceeds \<open>rangeSq\<close>, the answer
  is true and the captured target becomes the floored position (entity and \<open>rangeSq\<close>
  stay); otherwise the answer is false and the goal is as before.
\<close>

theorem GoalFollow_hasChanged_retargets:
  "let p = floored (ents entity);
       dsq = (tx - x p) * (tx - x p) + (ty - y p) * (ty - y p) + (tz - z p) * (tz - z p) in
    (dsq > rangeSq \<longrightarrow>
       hasChanged ents (GoalFollow entity tx ty tz rangeSq) =
         (True, GoalFollow entity (of_int \<lfloor>x (ents entity)\<rfloor>) (of_int \<lfloor>y (ents entity)\<rfloor>)
                  (of_int \<lfloor>z (ents entity)\<rfloor>) rangeSq)) \<and>
    (dsq \<le> rangeSq \<longrightarrow>
       hasChanged ents (GoalFollow entity tx ty tz rangeSq) =
         (False, GoalFollow entity tx ty tz rangeSq))"
  by (simp add: Let_def floored_def)

theorem GoalFollow_hasChanged_retargets_witness:
  "hasChanged (\<lambda>e. Vec3 4.2 0 0) (new_GoalFollow (\<lambda>e. Vec3 0 0 0) 7 3)
     = (True, GoalFollow 7 4 0 0 9) \<and>
   hasChanged (\<lambda>e. Vec3 4.2 0 0) (GoalFollow 7 4 0 0 9) = (False, GoalFollow 7 4 0 0 9)"
  using GoalFollow_hasChanged_retargets
          [where ents = "\<lambda>e. Vec3 4.2 0 0" and entity = 7 and tx = 0 and ty = 0 and tz = 0
             and rangeSq = 9]
        GoalFollow_hasChanged_retargets
          [where ents = "\<lambda>e. Vec3 4.2 0 0" and entity = 7 and tx = 4 and ty = 0 and tz = 0
             and rangeSq = 9]
  by (simp add: Let_def floored_def new_GoalFollow_def)

subsection \<open>The placement goal\<close>

text \<open>
  C2. With \<open>facing = 'north'\<close> and \<open>facing3D = false\<close> the goal is claimed to accept the
  directions within 45 degrees of north, the negative z axis. Evaluated on a goal built
  with these options: the index stored for \<open>north\<close> is 0, the direction \<open>(0, 0, -1)\<close>,
  due north, falls into bucket 2 and is refused, and the direction \<open>(0, 0, 1)\<close>, due south,
  falls into bucket 0 and is accepted.
\<close>

theorem checkFacing_north_refuses_due_north:
  "case new_GoalPlaceBlock (\<lambda>shapes dir hf. []) (Vec3 0 0 0)
          \<lparr>getBlock = (\<lambda>p. Some \<lparr>shapes = []\<rparr>),
           raycast = (\<lambda>origin direction maxDistance. None)\<rparr>
          \<lparr>range_opt = None, faces = None, facing = Some ''north'', facing3D = False,
           half = None, LOS = None\<rparr> of
     Inl e \<Rightarrow> False
   | Inr g \<Rightarrow>
       facing (options g) = 0 \<and> \<not> checkFacing g (Vec3 0 0 (- 1)) \<and> checkFacing g (Vec3 0 0 1)"
proof -
  have a: "\<lfloor>(0 * 180 / pi + 180) / 90 + 0.5 :: real\<rfloor> = 2" by simp
  have "(pi * 180 / pi + 180) / 90 + 0.5 = (9 / 2 :: real)" by simp
  then have b: "\<lfloor>(pi * 180 / pi + 180) / 90 + 0.5 :: real\<rfloor> = 4" by simp
  have c: "(2::int) AND 3 = 2" "(4::int) AND 3 = 0" by simp_all
  show ?thesis
    by (simp add: new_GoalPlaceBlock_def default_faces_def facing_names_def indexOf_def
          checkFacing_def Math_atan2_def Let_def a b c)
qed

text \<open>
  C4. With line of sight asked for, a candidate that \<open>getFaceAndRef\<close> returns is one of
  the goal's candidates, and the ray cast from the eye along the normalized vector to its
  target point, as far as the range, has hit a block whose position equals the
  candidate's reference block and whose face is the face index of the candidate's
  direction reversed. A candidate for which the ray reports no hit, another block or
  another face is passed over: the loop goes on with the candidates after it.
\<close>

theorem getFaceAndRef_line_of_sight:
  "LOS (options g) \<Longrightarrow>
   (let hit = (\<exists>blk. raycast (world g) headPos (normalize_v3 (minus_v3 to headPos))
                       (range_opt (options g)) = Some blk \<and>
                     equals (position blk) ref \<and>
                     Some (face blk) = vectorToDirection (scaled fc (- 1)))
    in (getFaceAndRef g headPos = Some (fc, to, ref) \<longrightarrow>
          (fc, to, ref) \<in> set (facesPos g) \<and> hit) \<and>
       (\<not> hit \<longrightarrow>
          getFaceAndRef_loop g headPos ((fc, to, ref) # rest) =
            getFaceAndRef_loop g headPos rest))"
proof -
  assume los: "LOS (options g)"
  have a: "getFaceAndRef g headPos = Some (fc, to, ref) \<Longrightarrow>
      (fc, to, ref) \<in> set (facesPos g) \<and>
      (\<exists>blk. raycast (world g) headPos (normalize_v3 (minus_v3 to headPos))
                       (range_opt (options g)) = Some blk \<and>
                     position blk = ref \<and>
                     Some (face blk) = vectorToDirection (scaled fc (- 1)))"
    using getFaceAndRef_loop_Some[of g headPos "facesPos g" fc to ref] los
    unfolding getFaceAndRef_def by blast
  have b: "\<not> (\<exists>blk. raycast (world g) headPos (normalize_v3 (minus_v3 to headPos))
                       (range_opt (options g)) = Some blk \<and>
                     position blk = ref \<and>
                     Some (face blk) = vectorToDirection (scaled fc (- 1))) \<Longrightarrow>
      getFaceAndRef_loop g headPos ((fc, to, ref) # rest) = getFaceAndRef_loop g headPos rest"
    using los by (subst getFaceAndRef_loop_step) (simp only: simp_thms if_False)
  from a b show ?thesis
    unfolding Let_def equals_iff by blast
qed

theorem getFaceAndRef_line_of_sight_witness:
  "(case new_GoalPlaceBlock (\<lambda>shapes dir hf. [Vec3 0.5 0.5 0]) (Vec3 0 0 0)
          \<lparr>getBlock = (\<lambda>p. Some \<lparr>shapes = []\<rparr>),
           raycast = (\<lambda>origin direction maxDistance.
                        Some \<lparr>position = Vec3 0 0 1, face = 2\<rparr>)\<rparr>
          \<lparr>range_opt = None, faces = Some [Vec3 0 0 1], facing = None, facing3D = False,
           half = None, LOS = None\<rparr> of
     Inl e \<Rightarrow> False
   | Inr g \<Rightarrow>
       LOS (options g) \<and>
       getFaceAndRef g (Vec3 0.5 0.5 0) = Some (Vec3 0 0 1, Vec3 0.5 0.5 1, Vec3 0 0 1) \<and>
       raycast (world g) (Vec3 0.5 0.5 0)
         (normalize_v3 (minus_v3 (Vec3 0.5 0.5 1) (Vec3 0.5 0.5 0))) (range_opt (options g))
         = Some \<lparr>position = Vec3 0 0 1, face = 2\<rparr> \<and>
       vectorToDirection (scaled (Vec3 0 0 1) (- 1)) = Some 2) \<and>
   (case new_GoalPlaceBlock (\<lambda>shapes dir hf. [Vec3 0.5 0.5 0]) (Vec3 0 0 0)
          \<lparr>getBlock = (\<lambda>p. Some \<lparr>shapes = []\<rparr>),
           raycast = (\<lambda>origin direction maxDistance.
                        Some \<lparr>position = Vec3 0 0 1, face = 3\<rparr>)\<rparr>
          \<lparr>range_opt = None, faces = Some [Vec3 0 0 1], facing = None, facing3D = False,
           half = None, LOS = None\<rparr> of
     Inl e \<Rightarrow> False
   | Inr g \<Rightarrow> LOS (options g) \<and> getFaceAndRef g (Vec3 0.5 0.5 0) = None)"
proof -
  let ?w = "\<lambda>n. \<lparr>getBlock = (\<lambda>p. Some \<lparr>shapes = []\<rparr>),
           raycast = (\<lambda>origin direction maxDistance.
                        Some \<lparr>position = Vec3 0 0 1, face = n\<rparr>)\<rparr>"
  let ?g = "\<lambda>n. \<lparr>pos = Vec3 0 0 0, world = ?w n,
            options = \<lparr>range_opt = 5, faces = [Vec3 0 0 1], facing = - 1, facing3D = False,
                       half = None, LOS = True\<rparr>,
            facesPos = [(Vec3 0 0 1, Vec3 0.5 0.5 1, Vec3 0 0 1)]\<rparr>"
  have g: "new_GoalPlaceBlock (\<lambda>shapes dir hf. [Vec3 0.5 0.5 0]) (Vec3 0 0 0) (?w n)
          \<lparr>range_opt = None, faces = Some [Vec3 0 0 1], facing = None, facing3D = False,
           half = None, LOS = None\<rparr> = Inr (?g n)" for n
    by (simp add: new_GoalPlaceBlock_def floored_def plus_v3_def add_v3_def scaled_def)
  have los: "LOS (options (?g n))" for n by simp
  have r: "getFaceAndRef (?g 2) (Vec3 0.5 0.5 0)
             = Some (Vec3 0 0 1, Vec3 0.5 0.5 1, Vec3 0 0 1)"
    by (simp add: getFaceAndRef_def minus_v3_def norm_v3_def checkFacing_def equals_def
          vectorToDirection_def scaled_def Let_def)
  have first: "raycast (world (?g 2)) (Vec3 0.5 0.5 0)
         (normalize_v3 (minus_v3 (Vec3 0.5 0.5 1) (Vec3 0.5 0.5 0))) (range_opt (options (?g 2)))
         = Some \<lparr>position = Vec3 0 0 1, face = 2\<rparr> \<and>
       vectorToDirection (scaled (Vec3 0 0 1) (- 1)) = Some 2"
    using getFaceAndRef_line_of_sight
            [OF los, of 2 "Vec3 0.5 0.5 0" "Vec3 0.5 0.5 1" "Vec3 0 0 1" "Vec3 0 0 1" "[]"] r
    by (simp add: Let_def vectorToDirection_def scaled_def)
  have second: "getFaceAndRef (?g 3) (Vec3 0.5 0.5 0) = None"
    using getFaceAndRef_line_of_sight
            [OF los, of 3 "Vec3 0.5 0.5 0" "Vec3 0.5 0.5 1" "Vec3 0 0 1" "Vec3 0 0 1" "[]"]
    by (simp add: Let_def vectorToDirection_def scaled_def equals_def getFaceAndRef_def)
  from r first second show ?thesis
    by (simp only: g sum.case los simp_thms)
qed

text \<open>
  C6. A facing string that is none of north, east, south, west, up, down raises nothing:
  where the blocks next to the anchor are loaded, so that the constructor's reads of the
  world succeed, the constructor returns a goal, the goal stores the index -1, and its
  \<open>checkFacing\<close> accepts every direction.
\<close>

theorem unknown_facing_unconstrained:
  "s \<notin> set facing_names \<Longrightarrow> facing opts = Some s \<Longrightarrow>
   (\<forall>d \<in> set (case faces opts of None \<Rightarrow> default_faces | Some fs \<Rightarrow> fs).
       getBlock w (plus_v3 (floored pos_in) d) \<noteq> None) \<Longrightarrow>
   \<exists>g. new_GoalPlaceBlock gsfc pos_in w opts = Inr g \<and> facing (options g) = - 1 \<and>
       (\<forall>dir. checkFacing g dir)"
proof -
  assume a: "s \<notin> set facing_names" and b: "facing opts = Some s"
    and c: "\<forall>d \<in> set (case faces opts of None \<Rightarrow> default_faces | Some fs \<Rightarrow> fs).
       getBlock w (plus_v3 (floored pos_in) d) \<noteq> None"
  from facesPos_loop_ok[OF c] obtain fp where
    fp: "facesPos_loop gsfc w (floored pos_in) (half opts)
           (case faces opts of None \<Rightarrow> default_faces | Some fs \<Rightarrow> fs) = Inr fp"
    by blast
  from a have i: "indexOf facing_names s = - 1"
    by (simp add: indexOf_def indexOf_from_absent)
  show ?thesis
    by (simp add: new_GoalPlaceBlock_def Let_def fp b i checkFacing_def)
qed

theorem unknown_facing_unconstrained_witness:
  "\<exists>g. new_GoalPlaceBlock (\<lambda>shapes dir hf. []) (Vec3 0 0 0)
         \<lparr>getBlock = (\<lambda>p. Some \<lparr>shapes = []\<rparr>),
          raycast = (\<lambda>origin direction maxDistance. None)\<rparr>
         \<lparr>range_opt = None, faces = None, facing = Some ''sideways'', facing3D = False,
          half = None, LOS = None\<rparr> = Inr g \<and>
       facing (options g) = - 1 \<and> checkFacing g (Vec3 0 0 (- 1))"
  using unknown_facing_unconstrained
          [where s = "''sideways''" and pos_in = "Vec3 0 0 0"
             and w = "\<lparr>getBlock = (\<lambda>p. Some \<lparr>shapes = []\<rparr>),
                       raycast = (\<lambda>origin direction maxDistance. None)\<rparr>"
             and opts = "\<lparr>range_opt = None, faces = None, facing = Some ''sideways'',
                          facing3D = False, half = None, LOS = None\<rparr>"
             and gsfc = "\<lambda>shapes dir hf. []"]
  by (simp add: facing_names_def) blast

text \<open>
  C9. A goal constructed from options whose range is 0 has the range 5, and one
  constructed from options whose \<open>LOS\<close> is present and false keeps it false.
\<close>

theorem range_zero_defaults_LOS_kept:
  "new_GoalPlaceBlock gsfc pos_in w opts = Inr g \<Longrightarrow>
     (range_opt opts = Some 0 \<longrightarrow> range_opt (options g) = 5) \<and>
     (LOS opts = Some False \<longrightarrow> LOS (options g) = False)"
  by (auto simp: new_GoalPlaceBlock_def Let_def split: sum.splits)

theorem range_zero_defaults_LOS_kept_witness:
  "\<exists>g. new_GoalPlaceBlock (\<lambda>shapes dir hf. []) (Vec3 0 0 0)
         \<lparr>getBlock = (\<lambda>p. Some \<lparr>shapes = []\<rparr>),
          raycast = (\<lambda>origin direction maxDistance. None)\<rparr>
         \<lparr>range_opt = Some 0, faces = None, facing = None, facing3D = False,
          half = None, LOS = Some False\<rparr> = Inr g \<and>
       range_opt (options g) = 5 \<and> LOS (options g) = False"
proof -
  let ?gsfc = "\<lambda>(shapes :: shape list) (dir :: vec3) (hf :: string option). [] :: vec3 list"
  let ?w = "\<lparr>getBlock = (\<lambda>p. Some \<lparr>shapes = []\<rparr>),
            raycast = (\<lambda>origin direction maxDistance. None)\<rparr>"
  let ?o = "\<lparr>range_opt = Some 0, faces = None, facing = None, facing3D = False,
          half = None, LOS = Some False\<rparr> :: given_options"
  obtain g where g: "new_GoalPlaceBlock ?gsfc (Vec3 0 0 0) ?w ?o = Inr g"
    by (simp add: new_GoalPlaceBlock_def Let_def default_faces_def)
  from range_zero_defaults_LOS_kept[OF g] g show ?thesis by simp
qed

end
